theory Spec2Isabelle
  imports Main
begin

section \<open>The document parse adapter \<^verbatim>\<open>docling_parser.py\<close>\<close>

text \<open>
  The script is a command-line adapter around an external document converter. It
  resolves a file path (first command-line argument, else the first line of standard
  input), runs the converter inside one \<^verbatim>\<open>try\<close>/\<^verbatim>\<open>except Exception\<close> block, shapes
  the result into a dictionary (the envelope) and prints the envelope as JSON.

  Conventions of the embedding.
  \<^item> A Python \<^verbatim>\<open>str\<close> is a \<^typ>\<open>string\<close>; one \<^typ>\<open>char\<close> is one code point, so
    the strings of the model are those over the code points 0 to 255, and the non-ASCII
    characters are those with code 128 and above.
  \<^item> A Python value that can end up in the envelope is a \<open>pyval\<close>. Dictionaries are
    association lists in insertion order, which is the order \<^verbatim>\<open>json.dumps\<close> emits.
    Floating point numbers are left out.
  \<^item> A raised exception is a value \<open>exn\<close> on the left of a sum. All exceptions of
    the model are instances of Python's \<^verbatim>\<open>Exception\<close>, the class the handler of
    \<^verbatim>\<open>parse_document\<close> catches; the payload is what \<^verbatim>\<open>str(e)\<close> returns.
  \<^item> The converter library is not part of the repository. It is a parameter of the
    model: a function from the path to what the library does on it. Where the script
    probes an attribute dynamically (\<^verbatim>\<open>getattr\<close>, \<^verbatim>\<open>callable\<close>, \<^verbatim>\<open>hasattr\<close>) the
    attribute may hold any \<open>pyval\<close> or be missing; where the script calls a
    markdown export, the call raises or returns a \<^verbatim>\<open>str\<close>, as the library's
    signature says.
  \<^item> Standard input is a text that has been decoded already, and standard output accepts
    every character (a UTF-8 stream), so that reading and printing do not raise.
\<close>

subsection \<open>Python values and exceptions\<close>

datatype pyval =
    PyNone
  | PyBool bool
  | PyInt int
  | PyStr string
  | PyList "pyval list"
  | PyDict "(string \<times> pyval) list"
  | PyCallable string
  | PyOpaque string

text \<open>
  \<open>PyCallable tn\<close> is a callable object (a bound method, a function) and
  \<open>PyOpaque tn\<close> any other object that is neither callable nor known to
  \<^verbatim>\<open>json.dumps\<close>; \<open>tn\<close> is the name of the object's type.
\<close>

datatype exn =
    AttributeError string
  | TypeError string
  | OtherException string

fun str_exn :: "exn \<Rightarrow> string" where
  "str_exn (AttributeError m) = m"
| "str_exn (TypeError m) = m"
| "str_exn (OtherException m) = m"

text \<open>The builtin \<^verbatim>\<open>callable(x)\<close>, which is also \<^verbatim>\<open>hasattr(x, '__call__')\<close>.\<close>

fun callable :: "pyval \<Rightarrow> bool" where
  "callable (PyCallable tn) = True"
| "callable v = False"

text \<open>
  An attribute access \<^verbatim>\<open>obj.name\<close> either raises or yields a value.
  \<^verbatim>\<open>getattr(obj, name, default)\<close> turns an \<^verbatim>\<open>AttributeError\<close>, and no other
  exception, into the default.
\<close>

type_synonym attr = "exn + pyval"

fun getattr :: "attr \<Rightarrow> pyval \<Rightarrow> exn + pyval" where
  "getattr (Inr v) d = Inr v"
| "getattr (Inl (AttributeError m)) d = Inr d"
| "getattr (Inl e) d = Inl e"

text \<open>Dictionary lookup \<^verbatim>\<open>d.get(k)\<close>; on a value that is no dictionary there is nothing to find.\<close>

fun py_get :: "pyval \<Rightarrow> string \<Rightarrow> pyval option" where
  "py_get (PyDict kvs) k = map_of kvs k"
| "py_get v k = None"

subsection \<open>The external converter\<close>

text \<open>
  What the script can observe of one table of the converted document:
  the attribute \<^verbatim>\<open>table.export_to_markdown\<close>, the result of calling it with the
  document, \<^verbatim>\<open>str(table)\<close>, and the attributes \<^verbatim>\<open>num_rows\<close> and \<^verbatim>\<open>num_cols\<close>.
\<close>

record table =
  export_to_markdown :: attr
  export_to_markdown_call :: "exn + string"
  table_str :: string
  num_rows :: attr
  num_cols :: attr

text \<open>
  What the script can observe of the document \<^verbatim>\<open>result.document\<close>:
  the result of \<^verbatim>\<open>export_to_markdown()\<close>, the tables that iterating over
  \<^verbatim>\<open>document.tables\<close> yields, and the attribute \<^verbatim>\<open>num_pages\<close>.
\<close>

record document =
  doc_export_to_markdown :: "exn + string"
  doc_tables :: "exn + table list"
  doc_num_pages :: attr

text \<open>
  \<^verbatim>\<open>DocumentConverter().convert(file_path).document\<close>: the construction of the
  converter, the conversion and the access to the document raise, or give the document.
\<close>

type_synonym converter = "string \<Rightarrow> exn + document"

subsection \<open>\<^verbatim>\<open>pathlib\<close>: name and suffix of a path\<close>

text \<open>
  \<^verbatim>\<open>Path(p).name\<close> and \<^verbatim>\<open>Path(p).suffix\<close> as CPython 3.12 computes them for a
  POSIX path: the path is split at \<^verbatim>\<open>/\<close>, empty components and \<^verbatim>\<open>.\<close> are dropped,
  the name is the last component left (the empty string when there is none), and the
  suffix is the part of the name from its last dot on, unless that dot is the first or
  the last character of the name.
\<close>

fun split_sep :: "char \<Rightarrow> string \<Rightarrow> string list" where
  "split_sep sep [] = [[]]"
| "split_sep sep (c # cs) =
     (if c = sep then [] # split_sep sep cs
      else (case split_sep sep cs of
              [] \<Rightarrow> [[c]]
            | w # ws \<Rightarrow> (c # w) # ws))"

definition path_tail :: "string \<Rightarrow> string list" where
  "path_tail p = filter (\<lambda>x. x \<noteq> [] \<and> x \<noteq> ''.'') (split_sep (CHR ''/'') p)"

definition path_name :: "string \<Rightarrow> string" where
  "path_name p = (case rev (path_tail p) of [] \<Rightarrow> [] | x # xs \<Rightarrow> x)"

text \<open>\<^verbatim>\<open>s.rfind(c)\<close>: the index of the last occurrence, or \<open>None\<close> for Python's \<open>-1\<close>.\<close>

fun rfind :: "char \<Rightarrow> string \<Rightarrow> nat option" where
  "rfind c [] = None"
| "rfind c (x # xs) =
     (case rfind c xs of
        Some i \<Rightarrow> Some (Suc i)
      | None \<Rightarrow> (if x = c then Some 0 else None))"

definition path_suffix :: "string \<Rightarrow> string" where
  "path_suffix p =
     (let name = path_name p in
      case rfind (CHR ''.'') name of
        None \<Rightarrow> []
      | Some i \<Rightarrow> (if 0 < i \<and> i + 1 < length name then drop i name else []))"

subsection \<open>\<^verbatim>\<open>json.dumps\<close>\<close>

text \<open>Decimal digits of an integer, as \<^verbatim>\<open>int.__repr__\<close> prints them.\<close>

definition digit_char :: "nat \<Rightarrow> char" where
  "digit_char d = char_of (48 + d)"

fun digits :: "nat \<Rightarrow> string" where
  "digits n = (if n < 10 then [digit_char n] else digits (n div 10) @ [digit_char (n mod 10)])"

declare digits.simps [simp del]

definition py_int_str :: "int \<Rightarrow> string" where
  "py_int_str i = (if i < 0 then CHR ''-'' # digits (nat (- i)) else digits (nat i))"

text \<open>
  String escaping. \<open>escape_dct\<close> is the table \<^verbatim>\<open>ESCAPE_DCT\<close> of \<^verbatim>\<open>json.encoder\<close>:
  backslash, double quote, the five short escapes, and \<^verbatim>\<open>\u00XX\<close> for the other
  control characters. With \<^verbatim>\<open>ensure_ascii\<close> every other character outside the range
  from space to tilde is written \<^verbatim>\<open>\uXXXX\<close> too; without it such a character is
  emitted as it is.
\<close>

definition hex_char :: "nat \<Rightarrow> char" where
  "hex_char d = (if d < 10 then char_of (48 + d) else char_of (87 + d))"

definition u_escape :: "char \<Rightarrow> string" where
  "u_escape c =
     (let n = (of_char c :: nat) in
      [CHR 0x5C, CHR ''u'', CHR ''0'', CHR ''0'', hex_char (n div 16), hex_char (n mod 16)])"

definition escape_dct :: "char \<Rightarrow> string option" where
  "escape_dct c =
     (if c = CHR 0x5C then Some [CHR 0x5C, CHR 0x5C]
      else if c = CHR 0x22 then Some [CHR 0x5C, CHR 0x22]
      else if c = CHR 0x08 then Some [CHR 0x5C, CHR ''b'']
      else if c = CHR 0x0C then Some [CHR 0x5C, CHR ''f'']
      else if c = CHR 0x0A then Some [CHR 0x5C, CHR ''n'']
      else if c = CHR 0x0D then Some [CHR 0x5C, CHR ''r'']
      else if c = CHR 0x09 then Some [CHR 0x5C, CHR ''t'']
      else if (of_char c :: nat) < 0x20 then Some (u_escape c)
      else None)"

definition encode_char :: "bool \<Rightarrow> char \<Rightarrow> string" where
  "encode_char ensure_ascii c =
     (case escape_dct c of
        Some e \<Rightarrow> e
      | None \<Rightarrow>
          (if ensure_ascii \<and> \<not> (0x20 \<le> (of_char c :: nat) \<and> (of_char c :: nat) \<le> 0x7E)
           then u_escape c else [c]))"

definition encode_basestring :: "bool \<Rightarrow> string \<Rightarrow> string" where
  "encode_basestring ensure_ascii s =
     CHR 0x22 # concat (map (encode_char ensure_ascii) s) @ [CHR 0x22]"

text \<open>
  The layout. \<open>indent\<close> is \<^verbatim>\<open>None\<close> or the number of spaces per level. With an indent
  every item starts on a line of its own and items are separated by a comma; without,
  everything is on one line and items are separated by a comma and a space. The key
  separator is a colon and a space in both cases.
\<close>

definition newline_indent :: "nat option \<Rightarrow> nat \<Rightarrow> string" where
  "newline_indent indent level =
     (case indent of
        None \<Rightarrow> []
      | Some n \<Rightarrow> CHR 0x0A # replicate (n * level) (CHR '' ''))"

definition item_separator :: "nat option \<Rightarrow> string" where
  "item_separator indent = (case indent of None \<Rightarrow> '', '' | Some n \<Rightarrow> '','')"

fun join :: "string \<Rightarrow> string list \<Rightarrow> string" where
  "join sep [] = []"
| "join sep [x] = x"
| "join sep (x # y # ys) = x @ sep @ join sep (y # ys)"

definition not_serializable :: "string \<Rightarrow> exn" where
  "not_serializable tn = TypeError (''Object of type '' @ tn @ '' is not JSON serializable'')"

text \<open>
  The encoder: \<open>iterencode\<close> for a value at a nesting level, \<open>iterencode_list\<close> and
  \<open>iterencode_dict\<close> for the items one level down. An object the encoder does not know
  raises \<^verbatim>\<open>TypeError\<close>, and the whole call raises with it.
\<close>

fun iterencode :: "bool \<Rightarrow> nat option \<Rightarrow> nat \<Rightarrow> pyval \<Rightarrow> exn + string"
  and iterencode_list :: "bool \<Rightarrow> nat option \<Rightarrow> nat \<Rightarrow> pyval list \<Rightarrow> exn + string list"
  and iterencode_dict :: "bool \<Rightarrow> nat option \<Rightarrow> nat \<Rightarrow> (string \<times> pyval) list \<Rightarrow> exn + string list"
where
  "iterencode ea ind lvl PyNone = Inr ''null''"
| "iterencode ea ind lvl (PyBool b) = Inr (if b then ''true'' else ''false'')"
| "iterencode ea ind lvl (PyInt i) = Inr (py_int_str i)"
| "iterencode ea ind lvl (PyStr s) = Inr (encode_basestring ea s)"
| "iterencode ea ind lvl (PyCallable tn) = Inl (not_serializable tn)"
| "iterencode ea ind lvl (PyOpaque tn) = Inl (not_serializable tn)"
| "iterencode ea ind lvl (PyList xs) =
     (if xs = [] then Inr ''[]''
      else (case iterencode_list ea ind (Suc lvl) xs of
              Inl e \<Rightarrow> Inl e
            | Inr parts \<Rightarrow>
                Inr (''['' @ newline_indent ind (Suc lvl)
                     @ join (item_separator ind @ newline_indent ind (Suc lvl)) parts
                     @ newline_indent ind lvl @ '']'')))"
| "iterencode ea ind lvl (PyDict kvs) =
     (if kvs = [] then Inr ''{}''
      else (case iterencode_dict ea ind (Suc lvl) kvs of
              Inl e \<Rightarrow> Inl e
            | Inr parts \<Rightarrow>
                Inr (''{'' @ newline_indent ind (Suc lvl)
                     @ join (item_separator ind @ newline_indent ind (Suc lvl)) parts
                     @ newline_indent ind lvl @ ''}'')))"
| "iterencode_list ea ind lvl [] = Inr []"
| "iterencode_list ea ind lvl (x # xs) =
     (case iterencode ea ind lvl x of
        Inl e \<Rightarrow> Inl e
      | Inr s \<Rightarrow>
          (case iterencode_list ea ind lvl xs of
             Inl e \<Rightarrow> Inl e
           | Inr ss \<Rightarrow> Inr (s # ss)))"
| "iterencode_dict ea ind lvl [] = Inr []"
| "iterencode_dict ea ind lvl ((k, v) # kvs) =
     (case iterencode ea ind lvl v of
        Inl e \<Rightarrow> Inl e
      | Inr s \<Rightarrow>
          (case iterencode_dict ea ind lvl kvs of
             Inl e \<Rightarrow> Inl e
           | Inr ss \<Rightarrow> Inr ((encode_basestring ea k @ '': '' @ s) # ss)))"

text \<open>\<^verbatim>\<open>json.dumps(obj, ensure_ascii=..., indent=...)\<close>.\<close>

definition json_dumps :: "bool \<Rightarrow> nat option \<Rightarrow> pyval \<Rightarrow> exn + string" where
  "json_dumps ensure_ascii indent obj = iterencode ensure_ascii indent 0 obj"

subsection \<open>\<^verbatim>\<open>parse_document\<close>\<close>

text \<open>
  Line 41, the text of one table: the attribute \<^verbatim>\<open>table.export_to_markdown\<close> is
  read first (and raises when the table has none); when its value is callable it is
  called with the document, otherwise the text is \<^verbatim>\<open>str(table)\<close>.
\<close>

definition table_markdown :: "table \<Rightarrow> exn + string" where
  "table_markdown t =
     (case export_to_markdown t of
        Inl e \<Rightarrow> Inl e
      | Inr m \<Rightarrow> (if callable m then export_to_markdown_call t else Inr (table_str t)))"

text \<open>Lines 42 to 46, the record appended for one table.\<close>

definition table_record :: "table \<Rightarrow> exn + pyval" where
  "table_record t =
     (case table_markdown t of
        Inl e \<Rightarrow> Inl e
      | Inr md \<Rightarrow>
          (case getattr (num_rows t) PyNone of
             Inl e \<Rightarrow> Inl e
           | Inr nr \<Rightarrow>
               (case getattr (num_cols t) PyNone of
                  Inl e \<Rightarrow> Inl e
                | Inr nc \<Rightarrow>
                    Inr (PyDict [(''data'', PyStr md), (''num_rows'', nr), (''num_cols'', nc)]))))"

text \<open>Lines 38 to 46, the loop over the tables; \<open>acc\<close> is the list \<^verbatim>\<open>tables\<close>.\<close>

fun collect_tables :: "table list \<Rightarrow> pyval list \<Rightarrow> exn + pyval list" where
  "collect_tables [] acc = Inr acc"
| "collect_tables (t # ts) acc =
     (case table_record t of
        Inl e \<Rightarrow> Inl e
      | Inr r \<Rightarrow> collect_tables ts (acc @ [r]))"

text \<open>Lines 49 to 52: a callable page count is replaced by \<^verbatim>\<open>None\<close>.\<close>

definition page_count :: "document \<Rightarrow> exn + pyval" where
  "page_count doc =
     (case getattr (doc_num_pages doc) PyNone of
        Inl e \<Rightarrow> Inl e
      | Inr num_pages \<Rightarrow> Inr (if callable num_pages then PyNone else num_pages))"

text \<open>Lines 54 to 58.\<close>

definition metadata_of :: "pyval \<Rightarrow> string \<Rightarrow> pyval" where
  "metadata_of num_pages file_path =
     PyDict [(''num_pages'', num_pages),
             (''file_type'', PyStr (path_suffix file_path)),
             (''file_name'', PyStr (path_name file_path))]"

text \<open>Lines 60 to 65 and 68 to 74, the two envelopes.\<close>

definition success_envelope :: "string \<Rightarrow> pyval list \<Rightarrow> pyval \<Rightarrow> pyval" where
  "success_envelope markdown tables metadata =
     PyDict [(''success'', PyBool True),
             (''markdown'', PyStr markdown),
             (''tables'', PyList tables),
             (''metadata'', metadata)]"

definition failure_envelope :: "exn \<Rightarrow> pyval" where
  "failure_envelope e =
     PyDict [(''success'', PyBool False),
             (''error'', PyStr (str_exn e)),
             (''markdown'', PyNone),
             (''tables'', PyList []),
             (''metadata'', PyDict [])]"

text \<open>The body of the \<^verbatim>\<open>try\<close> block, lines 28 to 65, in the order of the source.\<close>

definition try_body :: "converter \<Rightarrow> string \<Rightarrow> exn + pyval" where
  "try_body conv file_path =
     (case conv file_path of
        Inl e \<Rightarrow> Inl e
      | Inr doc \<Rightarrow>
          (case doc_export_to_markdown doc of
             Inl e \<Rightarrow> Inl e
           | Inr markdown \<Rightarrow>
               (case doc_tables doc of
                  Inl e \<Rightarrow> Inl e
                | Inr ts \<Rightarrow>
                    (case collect_tables ts [] of
                       Inl e \<Rightarrow> Inl e
                     | Inr tables \<Rightarrow>
                         (case page_count doc of
                            Inl e \<Rightarrow> Inl e
                          | Inr num_pages \<Rightarrow>
                              Inr (success_envelope markdown tables
                                     (metadata_of num_pages file_path)))))))"

definition parse_document :: "converter \<Rightarrow> string \<Rightarrow> pyval" where
  "parse_document conv file_path =
     (case try_body conv file_path of
        Inl e \<Rightarrow> failure_envelope e
      | Inr envelope \<Rightarrow> envelope)"

subsection \<open>The main block\<close>

text \<open>
  \<^verbatim>\<open>sys.stdin.readline()\<close> returns the input up to and including the first newline,
  or all of it when there is none. \<^verbatim>\<open>str.strip()\<close> removes the white space at both
  ends; the white space characters among the code points below 256 are 9 to 13, 28 to
  32, 133 and 160.
\<close>

fun readline :: "string \<Rightarrow> string" where
  "readline [] = []"
| "readline (c # cs) = (if c = CHR 0x0A then [c] else c # readline cs)"

definition isspace :: "char \<Rightarrow> bool" where
  "isspace c =
     (let n = (of_char c :: nat) in
      (9 \<le> n \<and> n \<le> 13) \<or> (28 \<le> n \<and> n \<le> 32) \<or> n = 133 \<or> n = 160)"

definition strip :: "string \<Rightarrow> string" where
  "strip s = rev (dropWhile isspace (rev (dropWhile isspace s)))"

text \<open>
  What one run of the program does: the text written to standard output, the exit
  status, how often a line was read from standard input, the paths the converter was
  invoked on, and the exception that ended the run, if one did. An exception that
  nothing catches ends the run with exit status 1 before anything is printed.
\<close>

record outcome =
  stdout :: string
  exit_status :: nat
  stdin_reads :: nat
  conversions :: "string list"
  uncaught :: "exn option"

text \<open>Lines 78 to 82: the file path and the number of lines read from standard input.\<close>

definition resolve_path :: "string list \<Rightarrow> string \<Rightarrow> string \<times> nat" where
  "resolve_path argv stdin =
     (if length argv > 1 then (argv ! 1, 0) else (strip (readline stdin), 1))"

definition missing_envelope :: pyval where
  "missing_envelope =
     PyDict [(''success'', PyBool False), (''error'', PyStr ''No file path provided'')]"

definition print :: "string \<Rightarrow> string" where
  "print s = s @ [CHR 0x0A]"

definition main :: "string list \<Rightarrow> string \<Rightarrow> converter \<Rightarrow> outcome" where
  "main argv stdin conv =
     (case resolve_path argv stdin of
        (file_path, reads) \<Rightarrow>
          if file_path = [] then
            (case json_dumps True None missing_envelope of
               Inl e \<Rightarrow>
                 \<lparr>stdout = [], exit_status = 1, stdin_reads = reads,
                  conversions = [], uncaught = Some e\<rparr>
             | Inr s \<Rightarrow>
                 \<lparr>stdout = print s, exit_status = 1, stdin_reads = reads,
                  conversions = [], uncaught = None\<rparr>)
          else
            (case json_dumps False (Some 2) (parse_document conv file_path) of
               Inl e \<Rightarrow>
                 \<lparr>stdout = [], exit_status = 1, stdin_reads = reads,
                  conversions = [file_path], uncaught = Some e\<rparr>
             | Inr s \<Rightarrow>
                 \<lparr>stdout = print s, exit_status = 0, stdin_reads = reads,
                  conversions = [file_path], uncaught = None\<rparr>))"

subsection \<open>Properties of envelopes and of the printed text\<close>

text \<open>
  The invariant of the data model. A field is populated when the dictionary has it and
  its value is neither \<^verbatim>\<open>None\<close> nor an empty list nor an empty dictionary; a field
  that is missing is not populated, and it is not null or empty either. The invariant
  asks for the values themselves: with \<^verbatim>\<open>success\<close> true the error is absent or null
  and the markdown is a string; with \<^verbatim>\<open>success\<close> false the error is a string, the
  markdown is null, the tables are the empty list and the metadata is the empty
  dictionary. In both cases exactly one of payload and error is populated.
\<close>

definition is_str :: "pyval option \<Rightarrow> bool" where
  "is_str field = (case field of Some (PyStr s) \<Rightarrow> True | _ \<Rightarrow> False)"

definition absent_or_null :: "pyval option \<Rightarrow> bool" where
  "absent_or_null field = (case field of None \<Rightarrow> True | Some PyNone \<Rightarrow> True | _ \<Rightarrow> False)"

definition populated :: "pyval option \<Rightarrow> bool" where
  "populated field =
     (case field of
        None \<Rightarrow> False
      | Some PyNone \<Rightarrow> False
      | Some (PyList xs) \<Rightarrow> xs \<noteq> []
      | Some (PyDict kvs) \<Rightarrow> kvs \<noteq> []
      | _ \<Rightarrow> True)"

definition payload_populated :: "pyval \<Rightarrow> bool" where
  "payload_populated env =
     (populated (py_get env ''markdown'') \<or> populated (py_get env ''tables'')
      \<or> populated (py_get env ''metadata''))"

definition error_populated :: "pyval \<Rightarrow> bool" where
  "error_populated env = populated (py_get env ''error'')"

definition envelope_invariant :: "pyval \<Rightarrow> bool" where
  "envelope_invariant env =
     (case py_get env ''success'' of
        Some (PyBool True) \<Rightarrow>
          absent_or_null (py_get env ''error'') \<and> is_str (py_get env ''markdown'')
          \<and> payload_populated env \<and> \<not> error_populated env
      | Some (PyBool False) \<Rightarrow>
          is_str (py_get env ''error'')
          \<and> py_get env ''markdown'' = Some PyNone
          \<and> py_get env ''tables'' = Some (PyList [])
          \<and> py_get env ''metadata'' = Some (PyDict [])
          \<and> error_populated env \<and> \<not> payload_populated env
      | _ \<Rightarrow> False)"


subsection \<open>Sample converter behaviour\<close>

text \<open>
  Concrete tables, documents and a converter, on which the theorems below are
  instantiated. \<open>sales_table\<close> has a markdown export method and plain dimensions;
  \<open>legacy_table\<close> has an \<^verbatim>\<open>export_to_markdown\<close> attribute that is not callable and
  no dimensions; \<open>bare_table\<close> has no \<^verbatim>\<open>export_to_markdown\<close> attribute at all;
  \<open>method_rows_table\<close> exposes its row count as a method.
\<close>

definition sales_table :: table where
  "sales_table =
     \<lparr>export_to_markdown = Inr (PyCallable ''method''),
      export_to_markdown_call = Inr ''| a | b |'',
      table_str = ''TableItem(sales)'',
      num_rows = Inr (PyInt 2),
      num_cols = Inr (PyInt 12)\<rparr>"

definition legacy_table :: table where
  "legacy_table =
     \<lparr>export_to_markdown = Inr PyNone,
      export_to_markdown_call = Inl (TypeError ''NoneType object is not callable''),
      table_str = ''LegacyTable(3x2)'',
      num_rows = Inl (AttributeError ''LegacyTable object has no attribute num_rows''),
      num_cols = Inl (AttributeError ''LegacyTable object has no attribute num_cols'')\<rparr>"

definition bare_table :: table where
  "bare_table =
     \<lparr>export_to_markdown =
        Inl (AttributeError ''BareTable object has no attribute export_to_markdown''),
      export_to_markdown_call =
        Inl (AttributeError ''BareTable object has no attribute export_to_markdown''),
      table_str = ''BareTable(1x1)'',
      num_rows = Inr (PyInt 1),
      num_cols = Inr (PyInt 1)\<rparr>"

definition method_rows_table :: table where
  "method_rows_table =
     \<lparr>export_to_markdown = Inr (PyCallable ''method''),
      export_to_markdown_call = Inr ''| x |'',
      table_str = ''TableItem(ledger)'',
      num_rows = Inr (PyCallable ''method''),
      num_cols = Inr (PyInt 1)\<rparr>"

definition report_doc :: document where
  "report_doc =
     \<lparr>doc_export_to_markdown = Inr ''# Report'',
      doc_tables = Inr [sales_table, legacy_table],
      doc_num_pages = Inr (PyInt 3)\<rparr>"

definition slides_doc :: document where
  "slides_doc =
     \<lparr>doc_export_to_markdown = Inr ''# Slides'',
      doc_tables = Inr [],
      doc_num_pages = Inr (PyCallable ''method'')\<rparr>"

definition memo_doc :: document where
  "memo_doc =
     \<lparr>doc_export_to_markdown = Inr (''Caf'' @ [CHR 0xE9] @ '' memo''),
      doc_tables = Inr [],
      doc_num_pages = Inl (AttributeError ''Document object has no attribute num_pages'')\<rparr>"

definition bare_doc :: document where
  "bare_doc =
     \<lparr>doc_export_to_markdown = Inr ''# Bare'',
      doc_tables = Inr [sales_table, bare_table],
      doc_num_pages = Inr (PyInt 1)\<rparr>"

definition ledger_doc :: document where
  "ledger_doc =
     \<lparr>doc_export_to_markdown = Inr ''# Ledger'',
      doc_tables = Inr [method_rows_table],
      doc_num_pages = Inr (PyInt 1)\<rparr>"

definition sample_converter :: converter where
  "sample_converter p =
     (if p = ''docs/report.pdf'' then Inr report_doc
      else if p = ''slides.pptx'' then Inr slides_doc
      else if p = ''memo.docx'' then Inr memo_doc
      else if p = ''bare.html'' then Inr bare_doc
      else if p = ''ledger.pdf'' then Inr ledger_doc
      else if p = ''out/q1.v2/ledger.pdf'' then Inr ledger_doc
      else Inl (OtherException (''File not found: '' @ p)))"

section \<open>Auxiliary facts\<close>

subsection \<open>Paths\<close>

lemma split_sep_no_sep: "w \<in> set (split_sep sep s) \<Longrightarrow> sep \<notin> set w"
proof (induction s arbitrary: w)
  case Nil
  then show ?case by simp
next
  case (Cons c cs)
  show ?case
  proof (cases "c = sep")
    case True
    with Cons show ?thesis by auto
  next
    case False
    with Cons show ?thesis by (cases "split_sep sep cs") auto
  qed
qed

lemma path_name_component:
  "path_name p = [] \<or> path_name p \<in> set (split_sep (CHR ''/'') p)"
proof (cases "rev (path_tail p)")
  case Nil
  then show ?thesis by (simp add: path_name_def)
next
  case (Cons x xs)
  then have "x \<in> set (rev (path_tail p))" by simp
  then have "x \<in> set (split_sep (CHR ''/'') p)" by (simp add: path_tail_def)
  moreover from Cons have "path_name p = x" by (simp add: path_name_def)
  ultimately show ?thesis by simp
qed

lemma path_name_no_sep: "CHR ''/'' \<notin> set (path_name p)"
  using path_name_component [of p] split_sep_no_sep [of "path_name p" "CHR ''/''" p] by auto

lemma rfind_Some: "rfind c s = Some i \<Longrightarrow> i < length s \<and> s ! i = c"
  by (induction s arbitrary: i) (auto split: option.splits if_splits)

lemma path_suffix_of_name: "\<exists>stem. path_name p = stem @ path_suffix p"
proof (cases "path_suffix p = []")
  case True
  then show ?thesis by simp
next
  case False
  then obtain i where "path_suffix p = drop i (path_name p)"
    by (auto simp: path_suffix_def Let_def split: option.splits if_splits)
  then have "path_name p = take i (path_name p) @ path_suffix p" by simp
  then show ?thesis by blast
qed

lemma path_suffix_dot: "path_suffix p = [] \<or> (\<exists>ext. path_suffix p = CHR ''.'' # ext \<and> ext \<noteq> [])"
proof (cases "rfind (CHR ''.'') (path_name p)")
  case None
  then show ?thesis by (simp add: path_suffix_def)
next
  case (Some i)
  show ?thesis
  proof (cases "0 < i \<and> i + 1 < length (path_name p)")
    case True
    from Some have "i < length (path_name p)" "path_name p ! i = CHR ''.''"
      using rfind_Some by blast+
    then have "drop i (path_name p) = CHR ''.'' # drop (Suc i) (path_name p)"
      by (metis Cons_nth_drop_Suc)
    moreover from True have "drop (Suc i) (path_name p) \<noteq> []" by simp
    ultimately show ?thesis using Some True by (simp add: path_suffix_def)
  next
    case False
    with Some show ?thesis by (auto simp add: path_suffix_def)
  qed
qed

text \<open>
  The name is the last component of the path, and the suffix of a name with a dot that is
  neither its first nor its last character starts at the last dot.
\<close>

lemma split_sep_single: "sep \<notin> set n \<Longrightarrow> split_sep sep n = [n]"
  by (induction n) auto

lemma split_sep_nonempty: "split_sep sep s \<noteq> []"
  by (induction s) (auto split: list.splits)

lemma split_sep_append:
  "split_sep sep (d @ sep # n) = split_sep sep d @ split_sep sep n"
proof (induction d)
  case Nil
  then show ?case by simp
next
  case (Cons c cs)
  then show ?case
    using split_sep_nonempty [of sep cs] by (cases "split_sep sep cs") auto
qed

lemma path_name_last_component:
  assumes "CHR ''/'' \<notin> set n" and "n \<noteq> []" and "n \<noteq> ''.''"
  shows "path_name (d @ CHR ''/'' # n) = n" and "path_name n = n"
  using assms by (simp_all add: path_name_def path_tail_def split_sep_append split_sep_single)

lemma rfind_None: "c \<notin> set s \<Longrightarrow> rfind c s = None"
  by (induction s) auto

lemma rfind_last: "c \<notin> set ext \<Longrightarrow> rfind c (stem @ c # ext) = Some (length stem)"
  by (induction stem) (auto simp: rfind_None)

lemma path_suffix_last_dot:
  assumes "path_name p = stem @ CHR ''.'' # ext"
    and "stem \<noteq> []" and "ext \<noteq> []" and "CHR ''.'' \<notin> set ext"
  shows "path_suffix p = CHR ''.'' # ext"
  using assms by (simp add: path_suffix_def rfind_last)

lemma path_suffix_none:
  "CHR ''.'' \<notin> set (path_name p) \<Longrightarrow> path_suffix p = []"
  by (simp add: path_suffix_def rfind_None)

subsection \<open>The steps of \<^verbatim>\<open>parse_document\<close> and of the main block\<close>

lemma collect_tables_acc:
  "collect_tables ts acc = Inr rs \<Longrightarrow>
     \<exists>new. rs = acc @ new \<and> list_all2 (\<lambda>t r. table_record t = Inr r) ts new"
proof (induction ts arbitrary: acc)
  case Nil
  then show ?case by simp
next
  case (Cons t ts)
  from Cons.prems obtain r where r: "table_record t = Inr r"
    and rest: "collect_tables ts (acc @ [r]) = Inr rs"
    by (auto split: sum.splits)
  from Cons.IH [OF rest] obtain new where "rs = (acc @ [r]) @ new"
    and "list_all2 (\<lambda>t r. table_record t = Inr r) ts new" by blast
  with r have "rs = acc @ (r # new) \<and> list_all2 (\<lambda>t r. table_record t = Inr r) (t # ts) (r # new)"
    by simp
  then show ?case by blast
qed

lemma table_record_data:
  "table_record t = Inr r \<Longrightarrow>
     \<exists>s. table_markdown t = Inr s \<and> py_get r ''data'' = Some (PyStr s)"
  by (auto simp: table_record_def split: sum.splits)

lemma try_body_success:
  assumes "try_body conv file_path = Inr envelope"
  shows "\<exists>doc markdown ts tables num_pages.
           conv file_path = Inr doc \<and> doc_export_to_markdown doc = Inr markdown
           \<and> doc_tables doc = Inr ts \<and> collect_tables ts [] = Inr tables
           \<and> page_count doc = Inr num_pages
           \<and> envelope = success_envelope markdown tables (metadata_of num_pages file_path)"
  using assms by (auto simp: try_body_def split: sum.splits)

lemma main_resolved:
  assumes "resolve_path argv stdin = (file_path, reads)" and "file_path \<noteq> []"
  shows "main argv stdin conv =
     (case json_dumps False (Some 2) (parse_document conv file_path) of
        Inl e \<Rightarrow>
          \<lparr>stdout = [], exit_status = 1, stdin_reads = reads,
           conversions = [file_path], uncaught = Some e\<rparr>
      | Inr s \<Rightarrow>
          \<lparr>stdout = print s, exit_status = 0, stdin_reads = reads,
           conversions = [file_path], uncaught = None\<rparr>)"
  using assms by (simp add: main_def)

text \<open>The three cases of line 41, and the dimensions of lines 44 and 45.\<close>

lemma table_markdown_cases:
  "export_to_markdown t = Inr m \<Longrightarrow> callable m \<Longrightarrow> table_markdown t = export_to_markdown_call t"
  "export_to_markdown t = Inr m \<Longrightarrow> \<not> callable m \<Longrightarrow> table_markdown t = Inr (table_str t)"
  "export_to_markdown t = Inl e \<Longrightarrow> table_markdown t = Inl e"
  by (simp_all add: table_markdown_def)

lemma table_record_dimensions:
  assumes "table_record t = Inr r"
  shows "getattr (num_rows t) PyNone = Inr nr \<Longrightarrow> py_get r ''num_rows'' = Some nr"
    and "getattr (num_cols t) PyNone = Inr nc \<Longrightarrow> py_get r ''num_cols'' = Some nc"
  using assms by (auto simp: table_record_def split: sum.splits)

text \<open>The body of the \<^verbatim>\<open>try\<close> block ends in an exception exactly when one of its steps raises it.\<close>

lemma try_body_raises:
  "try_body conv file_path = Inl e \<longleftrightarrow>
     conv file_path = Inl e
     \<or> (\<exists>doc. conv file_path = Inr doc
          \<and> (doc_export_to_markdown doc = Inl e
              \<or> (\<exists>markdown. doc_export_to_markdown doc = Inr markdown
                   \<and> (doc_tables doc = Inl e
                       \<or> (\<exists>ts. doc_tables doc = Inr ts
                            \<and> (collect_tables ts [] = Inl e
                                \<or> (\<exists>tables. collect_tables ts [] = Inr tables
                                     \<and> page_count doc = Inl e)))))))"
  by (auto simp: try_body_def split: sum.splits)

text \<open>The exit status is 0 exactly when the path is not empty and the envelope can be serialised.\<close>

lemma exit_status_zero_iff:
  assumes "resolve_path argv stdin = (file_path, reads)"
  shows "exit_status (main argv stdin conv) = 0 \<longleftrightarrow>
           file_path \<noteq> [] \<and> (\<exists>s. json_dumps False (Some 2) (parse_document conv file_path) = Inr s)"
  using assms by (auto simp: main_def split: sum.splits)

text \<open>The fields of the envelope when the body of the \<^verbatim>\<open>try\<close> block succeeds, and its printing.\<close>

lemma success_envelope_fields:
  assumes "try_body conv file_path = Inr envelope"
  shows "parse_document conv file_path = envelope
         \<and> py_get envelope ''success'' = Some (PyBool True)
         \<and> (\<exists>doc markdown. conv file_path = Inr doc \<and> doc_export_to_markdown doc = Inr markdown
               \<and> py_get envelope ''markdown'' = Some (PyStr markdown))
         \<and> (\<exists>metadata. py_get envelope ''metadata'' = Some metadata
               \<and> py_get metadata ''file_name'' = Some (PyStr (path_name file_path))
               \<and> py_get metadata ''file_type'' = Some (PyStr (path_suffix file_path)))
         \<and> CHR ''/'' \<notin> set (path_name file_path)
         \<and> (\<exists>stem. path_name file_path = stem @ path_suffix file_path)
         \<and> (path_suffix file_path = [] \<or> (\<exists>ext. path_suffix file_path = CHR ''.'' # ext \<and> ext \<noteq> []))
         \<and> (\<forall>argv stdin reads s.
               resolve_path argv stdin = (file_path, reads) \<and> file_path \<noteq> []
               \<and> json_dumps False (Some 2) envelope = Inr s
               \<longrightarrow> stdout (main argv stdin conv) = print s \<and> exit_status (main argv stdin conv) = 0)"
proof -
  from assms have env: "parse_document conv file_path = envelope"
    by (simp add: parse_document_def)
  from try_body_success [OF assms] obtain doc markdown tables num_pages where
    doc: "conv file_path = Inr doc" "doc_export_to_markdown doc = Inr markdown"
    and shape: "envelope = success_envelope markdown tables (metadata_of num_pages file_path)"
    by blast
  have fields: "py_get envelope ''success'' = Some (PyBool True)"
    "py_get envelope ''markdown'' = Some (PyStr markdown)"
    "py_get envelope ''metadata'' = Some (metadata_of num_pages file_path)"
    by (simp_all add: shape success_envelope_def)
  have meta: "py_get (metadata_of num_pages file_path) ''file_name'' = Some (PyStr (path_name file_path))"
    "py_get (metadata_of num_pages file_path) ''file_type'' = Some (PyStr (path_suffix file_path))"
    by (simp_all add: metadata_of_def)
  have printed: "stdout (main argv stdin conv) = print s \<and> exit_status (main argv stdin conv) = 0"
    if "resolve_path argv stdin = (file_path, reads)" "file_path \<noteq> []"
      "json_dumps False (Some 2) envelope = Inr s" for argv stdin reads s
    using main_resolved [OF that(1,2), of conv] that(3) by (simp add: env)
  show ?thesis
    using env fields meta doc printed path_name_no_sep [of file_path]
      path_suffix_of_name [of file_path] path_suffix_dot [of file_path]
    by blast
qed


lemma failure_envelope_invariant: "envelope_invariant (failure_envelope e)"
  by (simp add: envelope_invariant_def failure_envelope_def payload_populated_def
      error_populated_def is_str_def populated_def)

lemma success_envelope_invariant:
  "envelope_invariant (success_envelope markdown tables (metadata_of num_pages file_path))"
  by (simp add: envelope_invariant_def success_envelope_def metadata_of_def payload_populated_def
      error_populated_def is_str_def populated_def absent_or_null_def)

subsection \<open>Serialised envelopes\<close>

lemmas path_defs = path_name_def path_suffix_def path_tail_def

lemmas encode_defs = encode_basestring_def encode_char_def escape_dct_def

lemma newline_indent_levels:
  "newline_indent None lvl = []"
  "newline_indent (Some 2) 0 = ''\<newline>''"
  "newline_indent (Some 2) (Suc 0) = ''\<newline>  ''"
  "newline_indent (Some 2) (Suc (Suc 0)) = ''\<newline>    ''"
  "newline_indent (Some 2) (Suc (Suc (Suc 0))) = ''\<newline>      ''"
  by (simp_all add: newline_indent_def eval_nat_numeral)

lemmas layout_defs = json_dumps_def newline_indent_levels item_separator_def


lemma dumps_missing_envelope:
  \<open>json_dumps True None missing_envelope =
     Inr ''{"success": false, "error": "No file path provided"}''\<close>
  by (simp add: missing_envelope_def layout_defs encode_defs)




lemma escape_dct_non_ascii:
  assumes "128 \<le> (of_char c :: nat)"
  shows "escape_dct c = None"
proof -
  have differs: "c \<noteq> d" if "(of_char d :: nat) < 128" for d
    using assms that by auto
  have "c \<noteq> CHR 0x5C" "c \<noteq> CHR 0x22" "c \<noteq> CHR 0x08" "c \<noteq> CHR 0x0C"
    "c \<noteq> CHR 0x0A" "c \<noteq> CHR 0x0D" "c \<noteq> CHR 0x09"
    by (rule differs, simp)+
  with assms show ?thesis by (simp add: escape_dct_def)
qed


lemma encode_char_non_ascii_escaped:
  "128 \<le> (of_char c :: nat) \<Longrightarrow> encode_char True c = u_escape c"
  by (simp add: encode_char_def escape_dct_non_ascii)


subsection \<open>The sample converter, evaluated\<close>

lemma try_body_report:
  \<open>try_body sample_converter ''docs/report.pdf'' =
     Inr (PyDict
       [(''success'', PyBool True),
        (''markdown'', PyStr ''# Report''),
        (''tables'', PyList
           [PyDict [(''data'', PyStr ''| a | b |''), (''num_rows'', PyInt 2), (''num_cols'', PyInt 12)],
            PyDict [(''data'', PyStr ''LegacyTable(3x2)''), (''num_rows'', PyNone), (''num_cols'', PyNone)]]),
        (''metadata'', PyDict
           [(''num_pages'', PyInt 3), (''file_type'', PyStr ''.pdf''), (''file_name'', PyStr ''report.pdf'')])])\<close>
  by (simp add: try_body_def sample_converter_def report_doc_def sales_table_def legacy_table_def
      table_record_def table_markdown_def page_count_def success_envelope_def metadata_of_def
      path_defs)

lemma try_body_slides:
  \<open>try_body sample_converter ''slides.pptx'' =
     Inr (PyDict
       [(''success'', PyBool True),
        (''markdown'', PyStr ''# Slides''),
        (''tables'', PyList []),
        (''metadata'', PyDict
           [(''num_pages'', PyNone), (''file_type'', PyStr ''.pptx''), (''file_name'', PyStr ''slides.pptx'')])])\<close>
  by (simp add: try_body_def sample_converter_def slides_doc_def
      page_count_def success_envelope_def metadata_of_def path_defs)


lemma try_body_bare:
  \<open>try_body sample_converter ''bare.html'' =
     Inl (AttributeError ''BareTable object has no attribute export_to_markdown'')\<close>
  by (simp add: try_body_def sample_converter_def bare_doc_def sales_table_def bare_table_def
      table_record_def table_markdown_def)

lemma try_body_ledger:
  \<open>try_body sample_converter ''ledger.pdf'' =
     Inr (PyDict
       [(''success'', PyBool True),
        (''markdown'', PyStr ''# Ledger''),
        (''tables'', PyList
           [PyDict [(''data'', PyStr ''| x |''), (''num_rows'', PyCallable ''method''), (''num_cols'', PyInt 1)]]),
        (''metadata'', PyDict
           [(''num_pages'', PyInt 1), (''file_type'', PyStr ''.pdf''), (''file_name'', PyStr ''ledger.pdf'')])])\<close>
  by (simp add: try_body_def sample_converter_def ledger_doc_def method_rows_table_def
      table_record_def table_markdown_def page_count_def success_envelope_def metadata_of_def
      path_defs)

lemma digits_2: "digits 2 = ''2''" and digits_3: "digits 3 = ''3''" and digits_12: "digits 12 = ''12''"
  by code_simp+

lemma dumps_report:
  \<open>json_dumps False (Some 2) (PyDict
       [(''success'', PyBool True),
        (''markdown'', PyStr ''# Report''),
        (''tables'', PyList
           [PyDict [(''data'', PyStr ''| a | b |''), (''num_rows'', PyInt 2), (''num_cols'', PyInt 12)],
            PyDict [(''data'', PyStr ''LegacyTable(3x2)''), (''num_rows'', PyNone), (''num_cols'', PyNone)]]),
        (''metadata'', PyDict
           [(''num_pages'', PyInt 3), (''file_type'', PyStr ''.pdf''), (''file_name'', PyStr ''report.pdf'')])])
   = Inr ''{\<newline>  "success": true,\<newline>  "markdown": "# Report",\<newline>  "tables": [\<newline>    {\<newline>      "data": "| a | b |",\<newline>      "num_rows": 2,\<newline>      "num_cols": 12\<newline>    },\<newline>    {\<newline>      "data": "LegacyTable(3x2)",\<newline>      "num_rows": null,\<newline>      "num_cols": null\<newline>    }\<newline>  ],\<newline>  "metadata": {\<newline>    "num_pages": 3,\<newline>    "file_type": ".pdf",\<newline>    "file_name": "report.pdf"\<newline>  }\<newline>}''\<close>
  by (simp add: layout_defs encode_defs py_int_str_def digits_2 digits_3 digits_12)


lemma dumps_ledger:
  \<open>json_dumps False (Some 2) (PyDict
       [(''success'', PyBool True),
        (''markdown'', PyStr ''# Ledger''),
        (''tables'', PyList
           [PyDict [(''data'', PyStr ''| x |''), (''num_rows'', PyCallable ''method''), (''num_cols'', PyInt 1)]]),
        (''metadata'', PyDict
           [(''num_pages'', PyInt 1), (''file_type'', PyStr ''.pdf''), (''file_name'', PyStr ''ledger.pdf'')])])
   = Inl (TypeError ''Object of type method is not JSON serializable'')\<close>
  by (simp add: layout_defs encode_defs not_serializable_def)

lemma success_envelope_fields_report:
  \<open>try_body sample_converter ''docs/report.pdf'' =
     Inr (PyDict
       [(''success'', PyBool True),
        (''markdown'', PyStr ''# Report''),
        (''tables'', PyList
           [PyDict [(''data'', PyStr ''| a | b |''), (''num_rows'', PyInt 2), (''num_cols'', PyInt 12)],
            PyDict [(''data'', PyStr ''LegacyTable(3x2)''), (''num_rows'', PyNone), (''num_cols'', PyNone)]]),
        (''metadata'', PyDict
           [(''num_pages'', PyInt 3), (''file_type'', PyStr ''.pdf''), (''file_name'', PyStr ''report.pdf'')])])
   \<and> py_get (parse_document sample_converter ''docs/report.pdf'') ''success'' = Some (PyBool True)
   \<and> py_get (parse_document sample_converter ''docs/report.pdf'') ''markdown'' = Some (PyStr ''# Report'')
   \<and> path_name ''docs/report.pdf'' = ''report.pdf''
   \<and> path_suffix ''docs/report.pdf'' = ''.pdf''
   \<and> stdout (main [''docling_parser.py'', ''docs/report.pdf''] [] sample_converter) =
       ''{\<newline>  "success": true,\<newline>  "markdown": "# Report",\<newline>  "tables": [\<newline>    {\<newline>      "data": "| a | b |",\<newline>      "num_rows": 2,\<newline>      "num_cols": 12\<newline>    },\<newline>    {\<newline>      "data": "LegacyTable(3x2)",\<newline>      "num_rows": null,\<newline>      "num_cols": null\<newline>    }\<newline>  ],\<newline>  "metadata": {\<newline>    "num_pages": 3,\<newline>    "file_type": ".pdf",\<newline>    "file_name": "report.pdf"\<newline>  }\<newline>}\<newline>''
   \<and> exit_status (main [''docling_parser.py'', ''docs/report.pdf''] [] sample_converter) = 0\<close>
proof -
  have path: "resolve_path [''docling_parser.py'', ''docs/report.pdf''] [] = (''docs/report.pdf'', 0)"
    by (simp add: resolve_path_def)
  have name: "path_name ''docs/report.pdf'' = ''report.pdf''"
    and suffix: "path_suffix ''docs/report.pdf'' = ''.pdf''"
    by (simp_all add: path_defs)
  from success_envelope_fields [OF try_body_report]
  have "parse_document sample_converter ''docs/report.pdf'' =
          PyDict
           [(''success'', PyBool True),
            (''markdown'', PyStr ''# Report''),
            (''tables'', PyList
               [PyDict [(''data'', PyStr ''| a | b |''), (''num_rows'', PyInt 2), (''num_cols'', PyInt 12)],
                PyDict [(''data'', PyStr ''LegacyTable(3x2)''), (''num_rows'', PyNone), (''num_cols'', PyNone)]]),
            (''metadata'', PyDict
               [(''num_pages'', PyInt 3), (''file_type'', PyStr ''.pdf''), (''file_name'', PyStr ''report.pdf'')])]"
    and "resolve_path argv stdin = (''docs/report.pdf'', reads)
         \<and> json_dumps False (Some 2) (PyDict
           [(''success'', PyBool True),
            (''markdown'', PyStr ''# Report''),
            (''tables'', PyList
               [PyDict [(''data'', PyStr ''| a | b |''), (''num_rows'', PyInt 2), (''num_cols'', PyInt 12)],
                PyDict [(''data'', PyStr ''LegacyTable(3x2)''), (''num_rows'', PyNone), (''num_cols'', PyNone)]]),
            (''metadata'', PyDict
               [(''num_pages'', PyInt 3), (''file_type'', PyStr ''.pdf''), (''file_name'', PyStr ''report.pdf'')])]) = Inr s
         \<longrightarrow> stdout (main argv stdin sample_converter) = print s
             \<and> exit_status (main argv stdin sample_converter) = 0" for argv stdin reads s
    by simp_all
  from this(1) this(2) [of "[''docling_parser.py'', ''docs/report.pdf'']" "[]" 0] path dumps_report
  show ?thesis
    by (simp add: try_body_report name suffix print_def)
qed

section \<open>The claims\<close>



text \<open>
  C2. The claim: for every path on which conversion and extraction succeed, the printed
  envelope has \<^verbatim>\<open>success\<close> true, a markdown string, \<^verbatim>\<open>metadata.file_name\<close> the
  base name of the path and \<^verbatim>\<open>metadata.file_type\<close> its extension with the dot.
  \<^verbatim>\<open>parse_document\<close> returns such an envelope (lemma \<open>success_envelope_fields\<close>), but
  the program prints it only when \<^verbatim>\<open>json.dumps\<close> can serialise it. On
  \<^verbatim>\<open>out/q1.v2/ledger.pdf\<close> conversion and extraction succeed, the envelope has
  \<^verbatim>\<open>success\<close> true, the markdown, the name \<^verbatim>\<open>ledger.pdf\<close> and the type
  \<^verbatim>\<open>.pdf\<close>, and nothing is printed: the row count of the table is a method, line 44
  puts it into the envelope, and \<^verbatim>\<open>json.dumps\<close> on line 95 raises.
\<close>

theorem unprinted_success_envelope:
  \<open>try_body sample_converter ''out/q1.v2/ledger.pdf'' =
     Inr (PyDict
       [(''success'', PyBool True),
        (''markdown'', PyStr ''# Ledger''),
        (''tables'', PyList
           [PyDict [(''data'', PyStr ''| x |''), (''num_rows'', PyCallable ''method''), (''num_cols'', PyInt 1)]]),
        (''metadata'', PyDict
           [(''num_pages'', PyInt 1), (''file_type'', PyStr ''.pdf''), (''file_name'', PyStr ''ledger.pdf'')])])
   \<and> py_get (parse_document sample_converter ''out/q1.v2/ledger.pdf'') ''success'' = Some (PyBool True)
   \<and> py_get (parse_document sample_converter ''out/q1.v2/ledger.pdf'') ''markdown'' = Some (PyStr ''# Ledger'')
   \<and> stdout (main [''docling_parser.py'', ''out/q1.v2/ledger.pdf''] [] sample_converter) = []
   \<and> exit_status (main [''docling_parser.py'', ''out/q1.v2/ledger.pdf''] [] sample_converter) = 1
   \<and> uncaught (main [''docling_parser.py'', ''out/q1.v2/ledger.pdf''] [] sample_converter) =
       Some (TypeError ''Object of type method is not JSON serializable'')\<close>
proof -
  have body: "try_body sample_converter ''out/q1.v2/ledger.pdf'' =
     Inr (PyDict
       [(''success'', PyBool True),
        (''markdown'', PyStr ''# Ledger''),
        (''tables'', PyList
           [PyDict [(''data'', PyStr ''| x |''), (''num_rows'', PyCallable ''method''), (''num_cols'', PyInt 1)]]),
        (''metadata'', PyDict
           [(''num_pages'', PyInt 1), (''file_type'', PyStr ''.pdf''), (''file_name'', PyStr ''ledger.pdf'')])])"
    by (simp add: try_body_def sample_converter_def ledger_doc_def method_rows_table_def
        table_record_def table_markdown_def page_count_def success_envelope_def metadata_of_def
        path_defs)
  then show ?thesis
    by (simp add: main_def resolve_path_def parse_document_def dumps_ledger)
qed

text \<open>
  C3. With no command-line argument and a first line of standard input that is empty
  once its white space is stripped, the program prints the one-line envelope with
  \<^verbatim>\<open>success\<close> false and the error \<^verbatim>\<open>No file path provided\<close>, exits with status 1
  and never invokes the converter.
\<close>

theorem no_file_path:
  assumes "length argv \<le> 1" and "strip (readline stdin) = []"
  shows \<open>main argv stdin conv =
     \<lparr>stdout = ''{"success": false, "error": "No file path provided"}\<newline>'',
      exit_status = 1, stdin_reads = 1, conversions = [], uncaught = None\<rparr>\<close>
  using assms by (simp add: main_def resolve_path_def dumps_missing_envelope print_def)

theorem no_file_path_witness:
  \<open>length [''docling_parser.py''] \<le> 1
   \<and> strip (readline ''  \<newline>docs/report.pdf\<newline>'') = []
   \<and> main [''docling_parser.py''] ''  \<newline>docs/report.pdf\<newline>'' sample_converter =
     \<lparr>stdout = ''{"success": false, "error": "No file path provided"}\<newline>'',
      exit_status = 1, stdin_reads = 1, conversions = [], uncaught = None\<rparr>\<close>
  using no_file_path [of "[''docling_parser.py'']" "''  \<newline>docs/report.pdf\<newline>''" sample_converter]
  by (simp add: strip_def isspace_def)

text \<open>
  C4. The claim: every table gets a record whose \<^verbatim>\<open>data\<close> is the markdown rendering
  of the table when it exposes a markdown export, and \<^verbatim>\<open>str(table)\<close>, not a failure,
  when it exposes none; the dimensions default to null. The script renders the table
  when \<^verbatim>\<open>export_to_markdown\<close> is callable and falls back to \<^verbatim>\<open>str(table)\<close> when the
  attribute holds something that is not callable. A table that exposes no
  \<^verbatim>\<open>export_to_markdown\<close> at all gets no record: line 41 reads the attribute before it
  tests it, the read raises \<^verbatim>\<open>AttributeError\<close>, and the whole document ends in the
  failure envelope. The theorem evaluates the script on \<open>bare_doc\<close>, whose second table
  has no such attribute, next to \<open>legacy_table\<close>, for which the fallback works.
\<close>

theorem table_without_export_fails:
  \<open>table_markdown legacy_table = Inr ''LegacyTable(3x2)''
   \<and> table_markdown bare_table =
       Inl (AttributeError ''BareTable object has no attribute export_to_markdown'')
   \<and> table_record bare_table =
       Inl (AttributeError ''BareTable object has no attribute export_to_markdown'')
   \<and> parse_document sample_converter ''bare.html'' =
       PyDict [(''success'', PyBool False),
               (''error'', PyStr ''BareTable object has no attribute export_to_markdown''),
               (''markdown'', PyNone), (''tables'', PyList []), (''metadata'', PyDict [])]\<close>
  by (simp add: parse_document_def try_body_bare failure_envelope_def table_record_def
      table_markdown_def legacy_table_def bare_table_def)




text \<open>
  C6. The claim: whenever a file path is resolved the process exits with status 0, also
  when conversion or extraction fails, and status 1 occurs only when no path is
  resolved. The script exits with status 0 whenever the resolved path is not empty and
  the envelope can be serialised, and line 48 announces that every value of the
  envelope is JSON serialisable. Only the page count is guarded, though: a row count
  (or a column count) that the table exposes as a method goes into the envelope
  unchanged, \<^verbatim>\<open>json.dumps\<close> on line 95 raises \<^verbatim>\<open>TypeError\<close> outside the
  \<^verbatim>\<open>try\<close> block, and the run ends with exit status 1 and nothing on standard output
  although a path was resolved and \<^verbatim>\<open>parse_document\<close> returned a success envelope.
\<close>

theorem method_row_count_exit_status:
  \<open>py_get (parse_document sample_converter ''ledger.pdf'') ''success'' = Some (PyBool True)
   \<and> main [''docling_parser.py'', ''ledger.pdf''] [] sample_converter =
       \<lparr>stdout = [], exit_status = 1, stdin_reads = 0, conversions = [''ledger.pdf''],
        uncaught = Some (TypeError ''Object of type method is not JSON serializable'')\<rparr>\<close>
  by (simp add: main_def resolve_path_def parse_document_def try_body_ledger dumps_ledger)

text \<open>
  C7. The claim: every envelope of the program satisfies the invariant; with
  \<^verbatim>\<open>success\<close> false the markdown is null, the tables are the empty list and the
  metadata is the empty dictionary. This fails for the missing-input envelope of lines
  85 to 88: it has the two fields \<^verbatim>\<open>success\<close> and \<^verbatim>\<open>error\<close> only, so
  \<^verbatim>\<open>markdown\<close>, \<^verbatim>\<open>tables\<close> and \<^verbatim>\<open>metadata\<close> are missing, not null and empty.
\<close>

theorem missing_envelope_lacks_payload:
  \<open>stdout (main [''docling_parser.py''] ''\<newline>'' sample_converter) =
     ''{"success": false, "error": "No file path provided"}\<newline>''
   \<and> json_dumps True None missing_envelope =
       Inr ''{"success": false, "error": "No file path provided"}''
   \<and> py_get missing_envelope ''success'' = Some (PyBool False)
   \<and> py_get missing_envelope ''markdown'' = None
   \<and> py_get missing_envelope ''tables'' = None
   \<and> py_get missing_envelope ''metadata'' = None
   \<and> \<not> envelope_invariant missing_envelope\<close>
proof -
  have "stdout (main [''docling_parser.py''] ''\<newline>'' sample_converter) =
      ''{\"success\": false, \"error\": \"No file path provided\"}\<newline>''"
    by (simp add: main_def resolve_path_def strip_def isspace_def dumps_missing_envelope print_def)
  moreover have "py_get missing_envelope ''success'' = Some (PyBool False)"
    "py_get missing_envelope ''markdown'' = None"
    "py_get missing_envelope ''tables'' = None"
    "py_get missing_envelope ''metadata'' = None"
    by (simp_all add: missing_envelope_def)
  moreover from this have "\<not> envelope_invariant missing_envelope"
    by (simp add: envelope_invariant_def)
  ultimately show ?thesis
    using dumps_missing_envelope by simp
qed

text \<open>
  C7, amended. Every envelope that \<^verbatim>\<open>parse_document\<close> returns satisfies the
  invariant: with \<^verbatim>\<open>success\<close> true there is no error and the markdown is a string;
  with \<^verbatim>\<open>success\<close> false the error is a string, the markdown is null, the tables
  are the empty list and the metadata is the empty dictionary; exactly one of payload
  and error is populated. In the missing-input envelope \<^verbatim>\<open>success\<close> is false, the
  error is a string and the only populated field, and \<^verbatim>\<open>markdown\<close>, \<^verbatim>\<open>tables\<close>
  and \<^verbatim>\<open>metadata\<close> are absent.
\<close>

theorem envelope_invariant_holds:
  "envelope_invariant (parse_document conv file_path)
   \<and> (py_get (parse_document conv file_path) ''success'' = Some (PyBool True) \<longrightarrow>
        py_get (parse_document conv file_path) ''error'' = None
        \<and> is_str (py_get (parse_document conv file_path) ''markdown'')
        \<and> payload_populated (parse_document conv file_path)
        \<and> \<not> error_populated (parse_document conv file_path))
   \<and> (py_get (parse_document conv file_path) ''success'' = Some (PyBool False) \<longrightarrow>
        is_str (py_get (parse_document conv file_path) ''error'')
        \<and> py_get (parse_document conv file_path) ''markdown'' = Some PyNone
        \<and> py_get (parse_document conv file_path) ''tables'' = Some (PyList [])
        \<and> py_get (parse_document conv file_path) ''metadata'' = Some (PyDict [])
        \<and> error_populated (parse_document conv file_path)
        \<and> \<not> payload_populated (parse_document conv file_path))
   \<and> py_get missing_envelope ''success'' = Some (PyBool False)
   \<and> is_str (py_get missing_envelope ''error'')
   \<and> error_populated missing_envelope
   \<and> \<not> payload_populated missing_envelope
   \<and> py_get missing_envelope ''markdown'' = None
   \<and> py_get missing_envelope ''tables'' = None
   \<and> py_get missing_envelope ''metadata'' = None"
proof -
  have missing: "py_get missing_envelope ''success'' = Some (PyBool False)"
    "is_str (py_get missing_envelope ''error'')"
    "error_populated missing_envelope" "\<not> payload_populated missing_envelope"
    "py_get missing_envelope ''markdown'' = None"
    "py_get missing_envelope ''tables'' = None"
    "py_get missing_envelope ''metadata'' = None"
    by (simp_all add: missing_envelope_def is_str_def error_populated_def payload_populated_def
        populated_def)
  show ?thesis
  proof (cases "try_body conv file_path")
    case (Inl e)
    then have "parse_document conv file_path = failure_envelope e"
      by (simp add: parse_document_def)
    then show ?thesis
      using failure_envelope_invariant [of e] missing
      by (simp add: failure_envelope_def envelope_invariant_def)
  next
    case (Inr envelope)
    from try_body_success [OF Inr] obtain markdown tables num_pages where
      "envelope = success_envelope markdown tables (metadata_of num_pages file_path)"
      by blast
    with Inr have "parse_document conv file_path
        = success_envelope markdown tables (metadata_of num_pages file_path)"
      by (simp add: parse_document_def)
    then show ?thesis
      using success_envelope_invariant [of markdown tables num_pages file_path] missing
      by (simp add: success_envelope_def envelope_invariant_def)
  qed
qed

theorem envelope_invariant_holds_witness:
  \<open>envelope_invariant (parse_document sample_converter ''docs/report.pdf'')
   \<and> py_get (parse_document sample_converter ''docs/report.pdf'') ''success'' = Some (PyBool True)
   \<and> py_get (parse_document sample_converter ''docs/report.pdf'') ''error'' = None
   \<and> is_str (py_get (parse_document sample_converter ''docs/report.pdf'') ''markdown'')
   \<and> envelope_invariant (parse_document sample_converter ''bare.html'')
   \<and> py_get (parse_document sample_converter ''bare.html'') ''success'' = Some (PyBool False)
   \<and> is_str (py_get (parse_document sample_converter ''bare.html'') ''error'')
   \<and> py_get (parse_document sample_converter ''bare.html'') ''markdown'' = Some PyNone
   \<and> py_get (parse_document sample_converter ''bare.html'') ''tables'' = Some (PyList [])
   \<and> py_get (parse_document sample_converter ''bare.html'') ''metadata'' = Some (PyDict [])\<close>
proof -
  have report: "py_get (parse_document sample_converter ''docs/report.pdf'') ''success'' = Some (PyBool True)"
    by (simp add: parse_document_def try_body_report)
  have bare: "py_get (parse_document sample_converter ''bare.html'') ''success'' = Some (PyBool False)"
    by (simp add: parse_document_def try_body_bare failure_envelope_def)
  from envelope_invariant_holds [of sample_converter "''docs/report.pdf''"]
    envelope_invariant_holds [of sample_converter "''bare.html''"] report bare
  show ?thesis by blast
qed

text \<open>
  C8. The page count step never raises on a callable, a plain or a missing
  \<^verbatim>\<open>num_pages\<close>: a callable gives \<^verbatim>\<open>None\<close>, a plain value gives that value, a
  missing attribute gives \<^verbatim>\<open>None\<close>. In a success envelope
  \<^verbatim>\<open>metadata.num_pages\<close> is the result of this step, and it is never callable.
\<close>

theorem page_count_guard:
  "(doc_num_pages doc = Inr v \<and> callable v \<longrightarrow> page_count doc = Inr PyNone)
   \<and> (doc_num_pages doc = Inr v \<and> \<not> callable v \<longrightarrow> page_count doc = Inr v)
   \<and> (doc_num_pages doc = Inl (AttributeError m) \<longrightarrow> page_count doc = Inr PyNone)
   \<and> (try_body conv file_path = Inr envelope \<and> conv file_path = Inr doc \<longrightarrow>
        (\<exists>metadata num_pages.
           page_count doc = Inr num_pages
           \<and> py_get envelope ''metadata'' = Some metadata
           \<and> py_get metadata ''num_pages'' = Some num_pages
           \<and> \<not> callable num_pages))"
proof -
  have "\<exists>metadata num_pages.
           page_count doc = Inr num_pages
           \<and> py_get envelope ''metadata'' = Some metadata
           \<and> py_get metadata ''num_pages'' = Some num_pages
           \<and> \<not> callable num_pages"
    if body: "try_body conv file_path = Inr envelope" and doc: "conv file_path = Inr doc"
  proof -
    from try_body_success [OF body] doc obtain markdown tables num_pages where
      count: "page_count doc = Inr num_pages"
      and shape: "envelope = success_envelope markdown tables (metadata_of num_pages file_path)"
      by auto
    have "py_get envelope ''metadata'' = Some (metadata_of num_pages file_path)"
      by (simp add: shape success_envelope_def)
    moreover have "py_get (metadata_of num_pages file_path) ''num_pages'' = Some num_pages"
      by (simp add: metadata_of_def)
    moreover from count have "\<not> callable num_pages"
      by (auto simp: page_count_def split: sum.splits if_splits)
    ultimately show ?thesis using count by blast
  qed
  then show ?thesis by (simp add: page_count_def)
qed

theorem page_count_guard_witness:
  \<open>doc_num_pages slides_doc = Inr (PyCallable ''method'') \<and> callable (PyCallable ''method'')
   \<and> page_count slides_doc = Inr PyNone
   \<and> doc_num_pages report_doc = Inr (PyInt 3) \<and> \<not> callable (PyInt 3)
   \<and> page_count report_doc = Inr (PyInt 3)
   \<and> doc_num_pages memo_doc = Inl (AttributeError ''Document object has no attribute num_pages'')
   \<and> page_count memo_doc = Inr PyNone
   \<and> sample_converter ''slides.pptx'' = Inr slides_doc
   \<and> (\<exists>envelope metadata.
         try_body sample_converter ''slides.pptx'' = Inr envelope
         \<and> py_get envelope ''metadata'' = Some metadata
         \<and> py_get metadata ''num_pages'' = Some PyNone)\<close>
proof -
  have slides: "doc_num_pages slides_doc = Inr (PyCallable ''method'')"
    and report: "doc_num_pages report_doc = Inr (PyInt 3)"
    and memo: "doc_num_pages memo_doc = Inl (AttributeError ''Document object has no attribute num_pages'')"
    by (simp_all add: slides_doc_def report_doc_def memo_doc_def)
  have conv: "sample_converter ''slides.pptx'' = Inr slides_doc"
    by (simp add: sample_converter_def)
  from page_count_guard [of slides_doc "PyCallable ''method''" m sample_converter "''slides.pptx''"] slides
    try_body_slides conv
  have "page_count slides_doc = Inr PyNone"
    and "\<exists>metadata. py_get (PyDict
       [(''success'', PyBool True),
        (''markdown'', PyStr ''# Slides''),
        (''tables'', PyList []),
        (''metadata'', PyDict
           [(''num_pages'', PyNone), (''file_type'', PyStr ''.pptx''), (''file_name'', PyStr ''slides.pptx'')])])
        ''metadata'' = Some metadata \<and> py_get metadata ''num_pages'' = Some PyNone"
    by simp_all
  moreover from page_count_guard [of report_doc "PyInt 3"] report
  have "page_count report_doc = Inr (PyInt 3)" by simp
  moreover from page_count_guard [of memo_doc v "''Document object has no attribute num_pages''"] memo
  have "page_count memo_doc = Inr PyNone" by simp
  ultimately show ?thesis
    using slides report memo conv try_body_slides by simp
qed

text \<open>
  C9. In a success envelope \<^verbatim>\<open>tables\<close> is a list with one record for each table of
  the document, in the order of the tables: the record at position \<open>i\<close> has under
  \<^verbatim>\<open>data\<close> the string that is the text of the table at position \<open>i\<close>. A document
  without tables gives the empty list.
\<close>

theorem one_record_per_table:
  assumes "try_body conv file_path = Inr envelope"
    and "conv file_path = Inr doc" and "doc_tables doc = Inr ts"
  shows "\<exists>records.
           py_get envelope ''tables'' = Some (PyList records)
           \<and> length records = length ts
           \<and> (\<forall>i < length ts. \<exists>s. table_markdown (ts ! i) = Inr s
                 \<and> py_get (records ! i) ''data'' = Some (PyStr s))
           \<and> (ts = [] \<longrightarrow> records = [])"
proof -
  from try_body_success [OF assms(1)] assms(2,3) obtain markdown tables num_pages where
    collected: "collect_tables ts [] = Inr tables"
    and shape: "envelope = success_envelope markdown tables (metadata_of num_pages file_path)"
    by auto
  from collect_tables_acc [OF collected]
  have each: "list_all2 (\<lambda>t r. table_record t = Inr r) ts tables" by simp
  then have len: "length tables = length ts"
    by (simp add: list_all2_lengthD)
  have "\<exists>s. table_markdown (ts ! i) = Inr s \<and> py_get (tables ! i) ''data'' = Some (PyStr s)"
    if "i < length ts" for i
  proof -
    from list_all2_nthD [OF each that] have "table_record (ts ! i) = Inr (tables ! i)" .
    then show ?thesis by (rule table_record_data)
  qed
  moreover have "py_get envelope ''tables'' = Some (PyList tables)"
    by (simp add: shape success_envelope_def)
  ultimately show ?thesis using len by auto
qed

theorem one_record_per_table_witness:
  \<open>try_body sample_converter ''docs/report.pdf'' =
     Inr (PyDict
       [(''success'', PyBool True),
        (''markdown'', PyStr ''# Report''),
        (''tables'', PyList
           [PyDict [(''data'', PyStr ''| a | b |''), (''num_rows'', PyInt 2), (''num_cols'', PyInt 12)],
            PyDict [(''data'', PyStr ''LegacyTable(3x2)''), (''num_rows'', PyNone), (''num_cols'', PyNone)]]),
        (''metadata'', PyDict
           [(''num_pages'', PyInt 3), (''file_type'', PyStr ''.pdf''), (''file_name'', PyStr ''report.pdf'')])])
   \<and> sample_converter ''docs/report.pdf'' = Inr report_doc
   \<and> doc_tables report_doc = Inr [sales_table, legacy_table]
   \<and> (\<exists>records.
         py_get (parse_document sample_converter ''docs/report.pdf'') ''tables'' = Some (PyList records)
         \<and> length records = 2
         \<and> py_get (records ! 0) ''data'' = Some (PyStr ''| a | b |'')
         \<and> py_get (records ! 1) ''data'' = Some (PyStr ''LegacyTable(3x2)''))\<close>
proof -
  have conv: "sample_converter ''docs/report.pdf'' = Inr report_doc"
    by (simp add: sample_converter_def)
  have tables: "doc_tables report_doc = Inr [sales_table, legacy_table]"
    by (simp add: report_doc_def)
  from one_record_per_table [OF try_body_report conv tables] conv tables
  show ?thesis
    by (simp add: parse_document_def try_body_report)
qed

text \<open>
  C10. With at least one command-line argument the program reads no line from standard
  input, and the whole outcome (printed text, exit status, converter invocations) is
  the same whatever standard input holds.
\<close>

theorem argument_without_stdin:
  assumes "length argv > 1"
  shows "stdin_reads (main argv stdin conv) = 0
         \<and> main argv stdin conv = main argv stdin' conv"
proof -
  have "main argv input conv = main argv [] conv \<and> stdin_reads (main argv input conv) = 0"
    for input
    using assms by (simp add: main_def resolve_path_def split: sum.splits)
  then show ?thesis by metis
qed

theorem argument_without_stdin_witness:
  \<open>length [''docling_parser.py'', ''lost.pdf''] > 1
   \<and> stdin_reads (main [''docling_parser.py'', ''lost.pdf''] ''docs/report.pdf\<newline>'' sample_converter) = 0
   \<and> main [''docling_parser.py'', ''lost.pdf''] ''docs/report.pdf\<newline>'' sample_converter
       = main [''docling_parser.py'', ''lost.pdf''] [] sample_converter\<close>
proof -
  have two: "length [''docling_parser.py'', ''lost.pdf''] > 1" by simp
  from argument_without_stdin [OF two, of "''docs/report.pdf\<newline>''" sample_converter "[]"] two
  show ?thesis by blast
qed

end
